theory Spec2Isabelle
  imports Main "HOL-Library.Sublist" "HOL-Library.Word"
begin

section \<open>Strings\<close>

text \<open>
  A JavaScript string is a sequence of UTF-16 code units. Two models of it are used.

  The Runs page lower-cases its strings, and the case table of Unicode is not part of the
  model: there a string is a \<^typ>\<open>string\<close> whose \<^typ>\<open>char\<close>s stand for the code units
  0..255 (the Latin-1 part of Unicode), and the statements about that page are about
  strings over that range.

  The renderer of the Preview page depends on no such table, only on which code units
  are line terminators: there a string is a list of 16-bit words, every code unit a
  JavaScript string can hold. \<open>utf16\<close> reads a literal of the first kind as a string of
  the second; a code point below 256 is one code unit of the same value.
\<close>

type_synonym code_unit = "16 word"

type_synonym js_string = "code_unit list"

definition utf16 :: "string \<Rightarrow> js_string" where
  "utf16 s = map of_char s"

text \<open>
  The line terminators of ECMAScript: line feed, carriage return, line separator
  (U+2028) and paragraph separator (U+2029).
\<close>

definition LF :: code_unit where
  "LF = 0x000A"

definition CR :: code_unit where
  "CR = 0x000D"

definition LS :: code_unit where
  "LS = 0x2028"

definition PS :: code_unit where
  "PS = 0x2029"

definition is_line_terminator :: "code_unit \<Rightarrow> bool" where
  "is_line_terminator c \<longleftrightarrow> c = LF \<or> c = CR \<or> c = LS \<or> c = PS"

text \<open>
  \<^verbatim>\<open>String.prototype.toLowerCase\<close> on one code unit of the range 0..255: the letters A..Z and
  the capital letters U+00C0..U+00DE (without the multiplication sign U+00D7) move up
  by 32; every other code unit of the range is its own lower case.
\<close>

definition toLowerCase_unit :: "char \<Rightarrow> char" where
  "toLowerCase_unit c =
     (let n = (of_char c :: nat)
      in if (65 \<le> n \<and> n \<le> 90) \<or> (192 \<le> n \<and> n \<le> 222 \<and> n \<noteq> 215)
         then char_of (n + 32) else c)"

definition toLowerCase :: "string \<Rightarrow> string" where
  "toLowerCase s = map toLowerCase_unit s"

text \<open>
  \<^verbatim>\<open>s.includes(q)\<close>: does \<open>q\<close> occur in \<open>s\<close> at some position? The search tries every
  start position from the left; the empty \<open>q\<close> occurs at position 0 of every string.
  (The name carries a suffix because \<^verbatim>\<open>includes\<close> is a keyword of Isabelle.)
\<close>

fun includes_str :: "string \<Rightarrow> string \<Rightarrow> bool" where
  "includes_str [] q = (q = [])"
| "includes_str (c # cs) q = (prefix q (c # cs) \<or> includes_str cs q)"

section \<open>The Runs page: serialising and filtering rows\<close>

text \<open>
  A row of \<^verbatim>\<open>RunsPage.vue\<close> is an object literal with the three string properties
  \<^verbatim>\<open>id\<close>, \<^verbatim>\<open>name\<close> and \<^verbatim>\<open>status\<close>, created in this order. (The field \<^verbatim>\<open>id\<close> is
  written \<open>id'\<close>, since \<open>id\<close> is the identity function of HOL.)
\<close>

record row =
  id' :: string
  name :: string
  status :: string

definition rows :: "row list" where
  "rows =
     [\<lparr>id' = ''a1'', name = ''Alpha'', status = ''PASSED''\<rparr>,
      \<lparr>id' = ''b2'', name = ''Beta'', status = ''FAILED''\<rparr>,
      \<lparr>id' = ''c3'', name = ''Gamma'', status = ''RUNNING''\<rparr>]"

text \<open>
  \<^verbatim>\<open>JSON.stringify\<close> on a string value (the operation QuoteJSONString of ECMAScript):
  the seven characters with a short escape get it, any other control character below
  U+0020 is written \<^verbatim>\<open>\u00XX\<close> with lower-case hexadecimal digits, every other code
  unit of the range is kept, and the whole is put between double quotes.
\<close>

definition hex_digit :: "nat \<Rightarrow> char" where
  "hex_digit n = ''0123456789abcdef'' ! (n mod 16)"

definition backslash :: char where
  "backslash = CHR 0x5C"

definition dquote :: char where
  "dquote = CHR 0x22"

definition quote_unit :: "char \<Rightarrow> string" where
  "quote_unit c =
     (if c = CHR 0x08 then [backslash, CHR ''b'']
      else if c = CHR 0x09 then [backslash, CHR ''t'']
      else if c = CHR 0x0A then [backslash, CHR ''n'']
      else if c = CHR 0x0C then [backslash, CHR ''f'']
      else if c = CHR 0x0D then [backslash, CHR ''r'']
      else if c = dquote then [backslash, dquote]
      else if c = backslash then [backslash, backslash]
      else if (of_char c :: nat) < 32
        then [backslash, CHR ''u'', CHR ''0'', CHR ''0'',
              hex_digit ((of_char c :: nat) div 16), hex_digit (of_char c :: nat)]
      else [c])"

definition QuoteJSONString :: "string \<Rightarrow> string" where
  "QuoteJSONString s = [dquote] @ concat (map quote_unit s) @ [dquote]"

text \<open>
  \<^verbatim>\<open>JSON.stringify(r)\<close> on a row, without indentation: the properties in creation
  order, each as quoted key, colon, quoted value, separated by commas, in braces.
\<close>

definition JSON_stringify :: "row \<Rightarrow> string" where
  "JSON_stringify r =
     ''{'' @ QuoteJSONString ''id'' @ '':'' @ QuoteJSONString (id' r) @ '','' @
     QuoteJSONString ''name'' @ '':'' @ QuoteJSONString (name r) @ '','' @
     QuoteJSONString ''status'' @ '':'' @ QuoteJSONString (status r) @ ''}''"

text \<open>
  The computed property \<^verbatim>\<open>filtered\<close>, as a function of the two refs it reads: the rows
  and the text of the search field.
  \<^verbatim>\<open>
  const q = filter.value.toLowerCase()
  return rows.value.filter((r) => JSON.stringify(r).toLowerCase().includes(q))
  \<close>
\<close>

definition filtered :: "row list \<Rightarrow> string \<Rightarrow> row list" where
  "filtered rows_value filter_value =
     (let q = toLowerCase filter_value
      in filter (\<lambda>r. includes_str (toLowerCase (JSON_stringify r)) q) rows_value)"

section \<open>The Preview page: headings and line breaks\<close>

text \<open>
  The computed property \<^verbatim>\<open>renderedMd\<close> chains four calls of \<^verbatim>\<open>String.prototype.replace\<close>,
  each with a regular expression carrying the flags \<^verbatim>\<open>g\<close> (replace every match, scanning
  from the left, each scan resuming where the last match ended), \<^verbatim>\<open>i\<close> (ignore case;
  without effect here: the patterns hold no letter, and no other code unit is folded to
  \<^verbatim>\<open>#\<close>, to the space or to the line feed) and \<^verbatim>\<open>m\<close> (multiline).
  Under \<^verbatim>\<open>m\<close> the assertion \<^verbatim>\<open>^\<close> holds at position 0 and after every line terminator,
  and \<^verbatim>\<open>$\<close> holds at the end of the input and before every line terminator; the dot
  matches every code unit that is not a line terminator.

  \<^verbatim>\<open>/^### (.*$)/gim\<close>, and likewise with two and with one \<^verbatim>\<open>#\<close>: a match starts at a
  line start where the marker (the \<^verbatim>\<open>#\<close>s and one space) stands; the greedy \<^verbatim>\<open>.*\<close>
  takes the rest of the line, where \<^verbatim>\<open>$\<close> holds at once; group 1 is that rest. The
  replacement puts group 1 between the opening and the closing tag. The scan resumes
  at the end of the line, which is not a line start (the code unit before it belongs to
  the match).
\<close>

text \<open>
  The marker of a heading of level \<open>n\<close>: \<open>n\<close> times \<^verbatim>\<open>#\<close> (U+0023), then one space
  (U+0020).
\<close>

definition heading_marker :: "nat \<Rightarrow> js_string" where
  "heading_marker n = replicate n 0x0023 @ [0x0020]"

text \<open>
  \<open>replace_heading_from n tag_open tag_close bol s\<close> rewrites the rest \<open>s\<close> of the input;
  \<open>bol\<close> says whether \<open>s\<close> begins at a line start. When the marker is a prefix of
  \<open>c # cs\<close>, the text after the marker is \<open>drop n cs\<close>.
\<close>

function replace_heading_from ::
    "nat \<Rightarrow> js_string \<Rightarrow> js_string \<Rightarrow> bool \<Rightarrow> js_string \<Rightarrow> js_string" where
  "replace_heading_from n tag_open tag_close bol [] = []"
| "replace_heading_from n tag_open tag_close bol (c # cs) =
     (if bol \<and> prefix (heading_marker n) (c # cs)
      then tag_open @ takeWhile (\<lambda>d. \<not> is_line_terminator d) (drop n cs) @ tag_close @
           replace_heading_from n tag_open tag_close False
             (dropWhile (\<lambda>d. \<not> is_line_terminator d) (drop n cs))
      else c # replace_heading_from n tag_open tag_close (is_line_terminator c) cs)"
  by pat_completeness auto
termination
  by (relation "measure (\<lambda>(n, tag_open, tag_close, bol, s). length s)")
     (auto intro: le_less_trans [OF length_dropWhile_le])

definition replace_heading ::
    "nat \<Rightarrow> js_string \<Rightarrow> js_string \<Rightarrow> js_string \<Rightarrow> js_string" where
  "replace_heading n tag_open tag_close s = replace_heading_from n tag_open tag_close True s"

text \<open>
  What the substitution does to one line, for comparison: a line that starts with the
  marker becomes its text after the marker between the two tags, any other line stays.
\<close>

definition wrap_heading_line ::
    "nat \<Rightarrow> js_string \<Rightarrow> js_string \<Rightarrow> js_string \<Rightarrow> js_string" where
  "wrap_heading_line n tag_open tag_close l =
     (if prefix (heading_marker n) l then tag_open @ drop (Suc n) l @ tag_close else l)"

text \<open>
  \<^verbatim>\<open>.replace(/\n$/gim, '<br/>')\<close>: a match is one line feed at which \<^verbatim>\<open>$\<close> holds just
  after it, that is, a line feed that is the last code unit of the input or stands
  before a line terminator.
\<close>

fun replace_newline_at_line_end :: "js_string \<Rightarrow> js_string" where
  "replace_newline_at_line_end [] = []"
| "replace_newline_at_line_end (c # cs) =
     (if c = LF \<and> (case cs of [] \<Rightarrow> True | d # _ \<Rightarrow> is_line_terminator d)
      then utf16 ''<br/>'' @ replace_newline_at_line_end cs
      else c # replace_newline_at_line_end cs)"

text \<open>
  \<^verbatim>\<open>
  return md.value
    .replace(/^### (.*$)/gim, '<h3 class="neon-subtitle">$1</h3>')
    .replace(/^## (.*$)/gim, '<h2 class="neon-subtitle">$1</h2>')
    .replace(/^# (.*$)/gim, '<h1 class="neon-title">$1</h1>')
    .replace(/\n$/gim, '<br/>')
  \<close>
\<close>

definition renderedMd :: "js_string \<Rightarrow> js_string" where
  \<open>renderedMd md_value =
     replace_newline_at_line_end
       (replace_heading 1 (utf16 ''<h1 class="neon-title">'') (utf16 ''</h1>'')
         (replace_heading 2 (utf16 ''<h2 class="neon-subtitle">'') (utf16 ''</h2>'')
           (replace_heading 3 (utf16 ''<h3 class="neon-subtitle">'') (utf16 ''</h3>'')
             md_value)))\<close>

text \<open>
  The words of the specification about the input of the renderer. The lines of a string
  are its parts between line terminators (the lines that \<^verbatim>\<open>^\<close> and \<^verbatim>\<open>$\<close> delimit); a
  line is \<^verbatim>\<open>#\<close>-prefixed when it starts with \<^verbatim>\<open>#\<close> (U+0023). Position \<open>i\<close> of \<open>s\<close> holds a newline
  at a line end when it holds a line feed followed by the end of \<open>s\<close> or by a line
  terminator.
\<close>

fun js_lines :: "js_string \<Rightarrow> js_string list" where
  "js_lines [] = [[]]"
| "js_lines (c # cs) =
     (if is_line_terminator c then [] # js_lines cs
      else (c # hd (js_lines cs)) # tl (js_lines cs))"

definition hash_prefixed_line :: "js_string \<Rightarrow> bool" where
  "hash_prefixed_line s \<longleftrightarrow> (\<exists>l \<in> set (js_lines s). prefix [0x0023] l)"

definition newline_at_line_end :: "js_string \<Rightarrow> nat \<Rightarrow> bool" where
  "newline_at_line_end s i \<longleftrightarrow>
     i < length s \<and> s ! i = LF \<and> (Suc i = length s \<or> is_line_terminator (s ! Suc i))"

section \<open>Exceptions\<close>

text \<open>
  A computation that may throw returns a sum: \<open>Inl e\<close> when it throws \<open>e\<close>, \<open>Inr v\<close> when
  it returns \<open>v\<close>. The type of thrown values is a parameter; no handler of these pages
  looks at the value it catches. \<open>try_catch body handler\<close> is
  \<^verbatim>\<open>try { body } catch { handler }\<close>.
\<close>

definition try_catch :: "'e + 'a \<Rightarrow> ('e \<Rightarrow> 'e + 'a) \<Rightarrow> 'e + 'a" where
  "try_catch body handler = (case body of Inl e \<Rightarrow> handler e | Inr v \<Rightarrow> Inr v)"

section \<open>The Home page: the JSON editor\<close>

text \<open>
  The values \<^verbatim>\<open>JSON.parse\<close> returns. Numbers are IEEE doubles in JavaScript; their
  carrier is left as a parameter.
\<close>

datatype 'n json =
    JNull
  | JBool bool
  | JNumber 'n
  | JString string
  | JArray "'n json list"
  | JObject "(string \<times> 'n json) list"

text \<open>
  \<^verbatim>\<open>JSON.parse\<close> is a builtin of the platform and a parameter of the model: any function
  from the text to a thrown value or a parsed value. The page keeps the text in \<^verbatim>\<open>raw\<close>
  and the message in \<^verbatim>\<open>errorMsg\<close>. The message for a text that does not parse is
  \<^verbatim>\<open>JSON inv\u00e1lido\<close>; its fifth letter from the end is the code unit 0xE1.
\<close>

record home_page =
  raw :: string
  errorMsg :: string

definition invalid_message :: string where
  "invalid_message = ''JSON inv'' @ [CHR 0xE1] @ ''lido''"

text \<open>
  \<^verbatim>\<open>
  const parsed = computed(() => {
    try { return JSON.parse(raw.value) } catch { return null }
  })
  \<close>
\<close>

definition parsed :: "(string \<Rightarrow> 'e + 'n json) \<Rightarrow> string \<Rightarrow> 'e + 'n json" where
  "parsed JSON_parse raw_value = try_catch (JSON_parse raw_value) (\<lambda>_. Inr JNull)"

text \<open>
  The callback of \<^verbatim>\<open>watch(raw, (val) => ...)\<close>, which runs with the new text when \<^verbatim>\<open>raw\<close>
  has changed:
  \<^verbatim>\<open>
  try { JSON.parse(val); errorMsg.value = '' } catch { errorMsg.value = 'JSON inv\u00e1lido' }
  \<close>
\<close>

definition raw_watcher ::
    "(string \<Rightarrow> 'e + 'n json) \<Rightarrow> string \<Rightarrow> home_page \<Rightarrow> 'e + home_page" where
  "raw_watcher JSON_parse val page =
     try_catch
       (case JSON_parse val of
          Inl e \<Rightarrow> Inl e
        | Inr _ \<Rightarrow> Inr (page\<lparr>errorMsg := []\<rparr>))
       (\<lambda>_. Inr (page\<lparr>errorMsg := invalid_message\<rparr>))"

text \<open>
  \<^verbatim>\<open>const isValid = computed(() => parsed.value !== null)\<close>
\<close>

definition isValid :: "(string \<Rightarrow> 'e + 'n json) \<Rightarrow> string \<Rightarrow> 'e + bool" where
  "isValid JSON_parse raw_value =
     (case parsed JSON_parse raw_value of
        Inl e \<Rightarrow> Inl e
      | Inr v \<Rightarrow> Inr (v \<noteq> JNull))"

text \<open>
  A sample behaviour of \<^verbatim>\<open>JSON.parse\<close> for concrete instances: it agrees with the builtin
  on the text \<^verbatim>\<open>null\<close>, which parses to the value null, and on the text \<^verbatim>\<open>{\<close>, on which the
  builtin throws a SyntaxError, as this function does on every text but \<^verbatim>\<open>null\<close>.
\<close>

definition JSON_parse_sample :: "string \<Rightarrow> string + nat json" where
  "JSON_parse_sample s = (if s = ''null'' then Inr JNull else Inl ''SyntaxError'')"

section \<open>The Preview page: the diagram\<close>

text \<open>
  What an element shows after an assignment to its \<^verbatim>\<open>innerHTML\<close> (markup) or to
  its \<^verbatim>\<open>innerText\<close> (plain text). A template ref is \<open>None\<close> while its element is not
  mounted.
\<close>

datatype content = InnerHTML string | InnerText string

record preview_page =
  umlEl :: "content option"
  ganttEl :: "content option"

text \<open>
  The collaborator \<^verbatim>\<open>window.mermaid\<close>: \<open>None\<close> when the global is missing (or falsy),
  else an object with the two methods the page calls. \<^verbatim>\<open>render\<close> returns a promise that
  the page awaits: a rejection is an exception at the \<^verbatim>\<open>await\<close>, and the result is
  reduced to its property \<^verbatim>\<open>svg\<close>. A global that is truthy but has no such method makes
  the call throw a TypeError: a throwing method, in the model.
\<close>

record theme_variables =
  lineColor :: string
  primaryTextColor :: string

record mermaid_config =
  startOnLoad :: bool
  theme :: string
  themeVariables :: theme_variables

record 'e mermaid =
  initialize :: "mermaid_config \<Rightarrow> 'e + unit"
  render :: "string \<Rightarrow> string \<Rightarrow> 'e + string"

definition uml_config :: mermaid_config where
  "uml_config =
     \<lparr>startOnLoad = False, theme = ''dark'',
      themeVariables = \<lparr>lineColor = ''#00f0ff'', primaryTextColor = ''#e5e7eb''\<rparr>\<rparr>"

definition uml_code :: string where
  "uml_code = ''classDiagram\<newline>A <|-- B\<newline>A : +foo()\<newline>B : +bar()''"

definition gantt_placeholder :: string where
  \<open>gantt_placeholder = ''<div style="color:#00ff7f">[Gantt here]</div>''\<close>

text \<open>
  The hook \<^verbatim>\<open>onMounted\<close>. Inside the \<^verbatim>\<open>try\<close> the only assignment comes after the last
  call that can throw, so the handler continues from the page as it was.
  \<^verbatim>\<open>
  try {
    const mermaid = window.mermaid
    const code = `classDiagram\nA <|-- B\nA : +foo()\nB : +bar()`
    if (mermaid && umlEl.value) {
      mermaid.initialize({ ... })
      const { svg } = await mermaid.render('uml-svg', code)
      umlEl.value.innerHTML = svg
    } else if (umlEl.value) {
      umlEl.value.innerText = code
    }
  } catch { /* ignored */ }
  if (ganttEl.value) {
    ganttEl.value.innerHTML = '<div style="color:#00ff7f">[Gantt here]</div>'
  }
  \<close>
\<close>

definition render_uml :: "'e mermaid option \<Rightarrow> preview_page \<Rightarrow> 'e + preview_page" where
  "render_uml window_mermaid page =
     (case (window_mermaid, umlEl page) of
        (Some mermaid, Some _) \<Rightarrow>
          (case initialize mermaid uml_config of
             Inl e \<Rightarrow> Inl e
           | Inr _ \<Rightarrow>
               (case render mermaid ''uml-svg'' uml_code of
                  Inl e \<Rightarrow> Inl e
                | Inr svg \<Rightarrow> Inr (page\<lparr>umlEl := Some (InnerHTML svg)\<rparr>)))
      | (None, Some _) \<Rightarrow> Inr (page\<lparr>umlEl := Some (InnerText uml_code)\<rparr>)
      | (_, None) \<Rightarrow> Inr page)"

definition onMounted :: "'e mermaid option \<Rightarrow> preview_page \<Rightarrow> 'e + preview_page" where
  "onMounted window_mermaid page =
     (case try_catch (render_uml window_mermaid page) (\<lambda>_. Inr page) of
        Inl e \<Rightarrow> Inl e
      | Inr page' \<Rightarrow>
          (case ganttEl page' of
             Some _ \<Rightarrow> Inr (page'\<lparr>ganttEl := Some (InnerHTML gantt_placeholder)\<rparr>)
           | None \<Rightarrow> Inr page'))"

text \<open>
  Concrete collaborators and a concrete page for instances: a collaborator whose
  \<^verbatim>\<open>render\<close> throws, and a page whose two elements are mounted and empty.
\<close>

definition throwing_mermaid :: "string mermaid" where
  "throwing_mermaid =
     \<lparr>initialize = (\<lambda>_. Inr ()), render = (\<lambda>_ _. Inl ''Parse error on line 1'')\<rparr>"

definition mounted_page :: preview_page where
  "mounted_page = \<lparr>umlEl = Some (InnerHTML []), ganttEl = Some (InnerHTML [])\<rparr>"

section \<open>Facts about the string operations\<close>

lemma includes_empty: "includes_str s []"
  by (cases s) simp_all

lemma includes_iff_sublist: "includes_str s q \<longleftrightarrow> sublist q s"
  by (induction s) (simp_all add: sublist_Cons_right)

lemma includes_iff_infix: "includes_str s q \<longleftrightarrow> (\<exists>pre suf. s = pre @ q @ suf)"
  by (simp add: includes_iff_sublist sublist_def)

lemma toLowerCase_empty: "toLowerCase [] = []"
  by (simp add: toLowerCase_def)

section \<open>The row filter\<close>

text \<open>
  Sanity check on the page's own rows: the query \<^verbatim>\<open>fail\<close> keeps the row b2 only, and
  the serialisation of that row is the JSON text one expects.
\<close>

lemma JSON_stringify_b2:
  \<open>JSON_stringify \<lparr>id' = ''b2'', name = ''Beta'', status = ''FAILED''\<rparr> =
     ''{"id":"b2","name":"Beta","status":"FAILED"}''\<close>
  by code_simp

lemma filtered_rows_fail:
  "filtered rows ''fail'' = [\<lparr>id' = ''b2'', name = ''Beta'', status = ''FAILED''\<rparr>]"
  by code_simp

text \<open>
  C1. For every sequence of rows and every query, the result of the filter holds exactly
  the rows of the input whose serialised text (\<^verbatim>\<open>JSON.stringify\<close>), in lower case,
  has the lower-cased query as a contiguous part: there are strings before and after it
  that complete it to the whole text.
\<close>

theorem filtered_exactly_matching:
  "set (filtered R q) =
     {r \<in> set R. \<exists>pre suf. toLowerCase (JSON_stringify r) = pre @ toLowerCase q @ suf}"
  by (auto simp add: filtered_def includes_iff_infix)

text \<open>
  C4. The empty query keeps every row: the result is the input list itself.
\<close>

theorem filtered_empty_query: "filtered R [] = R"
  by (simp add: filtered_def toLowerCase_empty includes_empty)

text \<open>
  C5. The result is a subsequence of the input: rows are dropped, never added,
  repeated, reordered or changed.
\<close>

theorem filtered_subseq: "subseq (filtered R q) R"
  by (simp add: filtered_def)

text \<open>
  C6. Filtering the result again with the same query changes nothing.
\<close>

theorem filtered_idempotent: "filtered (filtered R q) q = filtered R q"
  by (simp add: filtered_def)

section \<open>Facts about the renderer\<close>

lemma js_lines_nonempty: "js_lines s \<noteq> []"
  by (induction s) auto

lemma hd_js_lines: "hd (js_lines s) = takeWhile (\<lambda>d. \<not> is_line_terminator d) s"
  by (induction s) auto

lemma prefix_first_line:
  assumes "prefix m s" and "\<forall>d \<in> set m. \<not> is_line_terminator d"
  shows "prefix m (hd (js_lines s))"
proof -
  from assms(1) obtain t where s: "s = m @ t"
    by (auto simp: prefix_def)
  have "takeWhile (\<lambda>d. \<not> is_line_terminator d) (m @ t) =
          m @ takeWhile (\<lambda>d. \<not> is_line_terminator d) t"
    using assms(2) by simp
  then show ?thesis
    by (simp add: hd_js_lines s)
qed

lemma heading_marker_no_terminator:
  "\<forall>d \<in> set (heading_marker n). \<not> is_line_terminator d"
  by (auto simp: heading_marker_def is_line_terminator_def LF_def CR_def LS_def PS_def)

lemma heading_marker_hash: "prefix (heading_marker (Suc n)) l \<Longrightarrow> prefix [0x0023] l"
  by (auto simp: heading_marker_def prefix_def)

text \<open>
  A heading substitution leaves a text alone when no line of it starts with the marker.
  Read from a position inside a line (\<open>bol\<close> false), the first line does not count: it
  is the rest of a line that began earlier.
\<close>

lemma replace_heading_from_unchanged:
  "\<forall>l \<in> set (if bol then js_lines s else tl (js_lines s)). \<not> prefix (heading_marker n) l
   \<Longrightarrow> replace_heading_from n tag_open tag_close bol s = s"
proof (induction n tag_open tag_close bol s rule: replace_heading_from.induct)
  case (1 n tag_open tag_close bol)
  show ?case by simp
next
  case (2 n tag_open tag_close bol c cs)
  have no_match: "\<not> (bol \<and> prefix (heading_marker n) (c # cs))"
  proof
    assume h: "bol \<and> prefix (heading_marker n) (c # cs)"
    then have "prefix (heading_marker n) (hd (js_lines (c # cs)))"
      using prefix_first_line heading_marker_no_terminator by blast
    moreover have "hd (js_lines (c # cs)) \<in> set (js_lines (c # cs))"
      using js_lines_nonempty hd_in_set by blast
    ultimately show False
      using "2.prems" h by auto
  qed
  have "\<forall>l \<in> set (if is_line_terminator c then js_lines cs else tl (js_lines cs)).
          \<not> prefix (heading_marker n) l"
    using "2.prems" by (cases bol) (auto dest: list.set_sel(2) [OF js_lines_nonempty])
  then have "replace_heading_from n tag_open tag_close (is_line_terminator c) cs = cs"
    using "2.IH"(2) no_match by blast
  with no_match show ?case by auto
qed

text \<open>
  The scanner agrees with the line-by-line reading of the pattern: the first line of a
  text is rewritten as \<open>wrap_heading_line\<close> says, its terminator is kept, and the
  substitution goes on with the text after it; the last line is rewritten alike.
\<close>

lemma replace_heading_from_rest_of_last_line:
  "\<forall>d \<in> set l. \<not> is_line_terminator d \<Longrightarrow>
   replace_heading_from n tag_open tag_close False l = l"
  by (induction l) auto

lemma replace_heading_from_rest_of_line:
  "\<forall>d \<in> set l. \<not> is_line_terminator d \<Longrightarrow> is_line_terminator t \<Longrightarrow>
   replace_heading_from n tag_open tag_close False (l @ t # rest) =
     l @ t # replace_heading_from n tag_open tag_close True rest"
  by (induction l) auto

lemma prefix_marker_line:
  assumes "\<forall>d \<in> set l. \<not> is_line_terminator d" and "is_line_terminator t"
  shows "prefix (heading_marker n) (l @ t # rest) \<longleftrightarrow> prefix (heading_marker n) l"
proof
  assume p: "prefix (heading_marker n) (l @ t # rest)"
  have "hd (js_lines (l @ t # rest)) = l"
    using assms by (simp add: hd_js_lines)
  with prefix_first_line [OF p heading_marker_no_terminator] show "prefix (heading_marker n) l"
    by simp
next
  assume "prefix (heading_marker n) l"
  then show "prefix (heading_marker n) (l @ t # rest)"
    by (rule prefix_prefix)
qed

lemma length_heading_marker: "length (heading_marker n) = Suc n"
  by (simp add: heading_marker_def)

lemma replace_heading_line:
  assumes l: "\<forall>d \<in> set l. \<not> is_line_terminator d" and t: "is_line_terminator t"
  shows "replace_heading n tag_open tag_close (l @ t # rest) =
     wrap_heading_line n tag_open tag_close l @ t # replace_heading n tag_open tag_close rest"
proof (cases "prefix (heading_marker n) l")
  case True
  then obtain u where u: "l = heading_marker n @ u"
    by (auto simp: prefix_def)
  have "l \<noteq> []"
    using u by (simp add: heading_marker_def)
  then obtain c cs where ccs: "l = c # cs"
    by (cases l) auto
  have n: "n \<le> length cs"
    using u ccs length_heading_marker [of n]
    by (metis Suc_le_mono le_add1 length_Cons length_append)
  have nolt: "\<forall>d \<in> set (drop n cs). \<not> is_line_terminator d"
    using l ccs by (auto dest: in_set_dropD)
  have p: "prefix (heading_marker n) (c # cs @ t # rest)"
    using True prefix_marker_line [OF l t, of n rest] ccs by simp
  have d: "drop n (cs @ t # rest) = drop n cs @ t # rest"
    using n by simp
  have tw: "takeWhile (\<lambda>d. \<not> is_line_terminator d) (drop n cs @ t # rest) = drop n cs"
    using nolt t by simp
  have dw: "dropWhile (\<lambda>d. \<not> is_line_terminator d) (drop n cs @ t # rest) = t # rest"
    using nolt t by simp
  show ?thesis
    using True p t
    by (simp add: replace_heading_def wrap_heading_line_def ccs d tw dw del: drop_append)
next
  case False
  show ?thesis
  proof (cases l)
    case Nil
    have "\<not> prefix (heading_marker n) (t # rest)"
      using prefix_marker_line [of "[]" t n rest] t False Nil by simp
    moreover have "heading_marker n \<noteq> []"
      by (simp add: heading_marker_def)
    ultimately show ?thesis
      using t by (simp add: replace_heading_def wrap_heading_line_def Nil)
  next
    case (Cons c cs)
    have np: "\<not> prefix (heading_marker n) (c # cs @ t # rest)"
      using False prefix_marker_line [OF l t, of n rest] Cons by simp
    have "\<forall>d \<in> set cs. \<not> is_line_terminator d" and "\<not> is_line_terminator c"
      using l Cons by auto
    then show ?thesis
      using np False t
      by (simp add: replace_heading_def wrap_heading_line_def Cons
          replace_heading_from_rest_of_line)
  qed
qed

lemma replace_heading_last_line:
  assumes l: "\<forall>d \<in> set l. \<not> is_line_terminator d"
  shows "replace_heading n tag_open tag_close l = wrap_heading_line n tag_open tag_close l"
proof (cases l)
  case Nil
  then show ?thesis
    by (simp add: replace_heading_def wrap_heading_line_def heading_marker_def)
next
  case (Cons c cs)
  show ?thesis
  proof (cases "prefix (heading_marker n) l")
    case True
    then obtain u where u: "l = heading_marker n @ u"
      by (auto simp: prefix_def)
    have nolt: "\<forall>d \<in> set (drop n cs). \<not> is_line_terminator d"
      using l Cons by (auto dest: in_set_dropD)
    have tw: "takeWhile (\<lambda>d. \<not> is_line_terminator d) (drop n cs) = drop n cs"
      using nolt by simp
    have dw: "dropWhile (\<lambda>d. \<not> is_line_terminator d) (drop n cs) = []"
      using nolt by simp
    show ?thesis
      using True by (simp add: replace_heading_def wrap_heading_line_def Cons tw dw)
  next
    case False
    have "\<forall>d \<in> set cs. \<not> is_line_terminator d" and "\<not> is_line_terminator c"
      using l Cons by auto
    then show ?thesis
      using False
      by (simp add: replace_heading_def wrap_heading_line_def Cons
          replace_heading_from_rest_of_last_line)
  qed
qed

lemma replace_heading_unchanged:
  "\<not> hash_prefixed_line s \<Longrightarrow> replace_heading (Suc n) tag_open tag_close s = s"
  unfolding replace_heading_def hash_prefixed_line_def
  by (rule replace_heading_from_unchanged) (auto dest: heading_marker_hash)

lemma replace_newline_unchanged:
  "\<not> suffix [LF] s \<Longrightarrow> \<not> sublist [LF, LF] s \<Longrightarrow> \<not> sublist [LF, CR] s
   \<Longrightarrow> \<not> sublist [LF, LS] s \<Longrightarrow> \<not> sublist [LF, PS] s
   \<Longrightarrow> replace_newline_at_line_end s = s"
proof (induction s)
  case Nil
  show ?case by simp
next
  case (Cons c cs)
  have 1: "\<not> suffix [LF] cs"
    using Cons.prems(1) by (auto simp: suffix_Cons)
  have 2: "\<not> sublist [LF, LF] cs"
    using Cons.prems(2) by (auto simp: sublist_Cons_right)
  have 3: "\<not> sublist [LF, CR] cs"
    using Cons.prems(3) by (auto simp: sublist_Cons_right)
  have 4: "\<not> sublist [LF, LS] cs"
    using Cons.prems(4) by (auto simp: sublist_Cons_right)
  have 5: "\<not> sublist [LF, PS] cs"
    using Cons.prems(5) by (auto simp: sublist_Cons_right)
  have "\<not> (c = LF \<and> (case cs of [] \<Rightarrow> True | d # _ \<Rightarrow> is_line_terminator d))"
    using Cons.prems
    by (auto simp: is_line_terminator_def sublist_Cons_right split: list.splits)
  with Cons.IH [OF 1 2 3 4 5] show ?case
    by auto
qed

lemma newline_at_line_end_Suc:
  "newline_at_line_end (c # cs) (Suc i) = newline_at_line_end cs i"
  by (auto simp: newline_at_line_end_def)

lemma newline_at_line_end_0:
  "newline_at_line_end (c # cs) 0 \<longleftrightarrow>
     c = LF \<and> (case cs of [] \<Rightarrow> True | d # _ \<Rightarrow> is_line_terminator d)"
  by (auto simp: newline_at_line_end_def split: list.splits)

lemma replace_newline_positions:
  "replace_newline_at_line_end s =
     concat (map (\<lambda>i. if newline_at_line_end s i then utf16 ''<br/>'' else [s ! i]) [0..<length s])"
proof (induction s)
  case Nil
  show ?case by simp
next
  case (Cons c cs)
  have upt: "[0..<length (c # cs)] = 0 # map Suc [0..<length cs]"
    by (simp add: upt_conv_Cons map_Suc_upt del: upt_Suc)
  have tl: "map (\<lambda>i. if newline_at_line_end (c # cs) i then utf16 ''<br/>'' else [(c # cs) ! i])
              (map Suc [0..<length cs]) =
            map (\<lambda>i. if newline_at_line_end cs i then utf16 ''<br/>'' else [cs ! i]) [0..<length cs]"
    by (simp add: newline_at_line_end_Suc)
  show ?case
    unfolding upt list.map tl concat.simps Cons.IH [symmetric]
    by (simp add: newline_at_line_end_0)
qed

section \<open>The renderer\<close>

text \<open>
  Sanity checks: the empty text, one heading, a text ending in one newline, a text
  ending in two, and a newline before a line separator.
\<close>

lemma renderedMd_empty: "renderedMd [] = []"
  by code_simp

lemma renderedMd_title:
  \<open>renderedMd (utf16 ''# Title'') = utf16 ''<h1 class="neon-title">Title</h1>''\<close>
  by code_simp

lemma renderedMd_one_trailing_newline:
  "renderedMd (utf16 ''a\<newline>'') = utf16 ''a<br/>''"
  by code_simp

lemma renderedMd_two_trailing_newlines:
  "renderedMd (utf16 ''a\<newline>\<newline>'') = utf16 ''a<br/><br/>''"
  by code_simp

lemma renderedMd_newline_before_line_separator:
  "renderedMd (utf16 ''a\<newline>'' @ [LS] @ utf16 ''b'') = utf16 ''a<br/>'' @ [LS] @ utf16 ''b''"
  by code_simp

lemma renderedMd_heading_after_line_separator:
  \<open>renderedMd (utf16 ''a'' @ [LS] @ utf16 ''# b'') =
     utf16 ''a'' @ [LS] @ utf16 ''<h1 class="neon-title">b</h1>''\<close>
  by code_simp

text \<open>
  The text the page starts with, \<^verbatim>\<open># T\u00edtulo\n\n## Subt\u00edtulo\n\nContenido...\<close>: the
  two headings are wrapped, and the newline that ends each heading line, standing before
  an empty line, becomes a line-break tag.
\<close>

lemma renderedMd_initial_md:
  \<open>renderedMd (utf16 (''# T'' @ [CHR 0xED] @ ''tulo\<newline>\<newline>## Subt'' @ [CHR 0xED] @
       ''tulo\<newline>\<newline>Contenido...'')) =
     utf16 (''<h1 class="neon-title">T'' @ [CHR 0xED] @ ''tulo</h1><br/>\<newline>'' @
       ''<h2 class="neon-subtitle">Subt'' @ [CHR 0xED] @ ''tulo</h2><br/>\<newline>Contenido...'')\<close>
  by code_simp

text \<open>
  C2, as the claim states it, fails. The text \<^verbatim>\<open>a\n\nb\<close> has no line starting with \<^verbatim>\<open>#\<close>
  and does not end in a newline, yet its first newline, which stands mid-string before
  an empty line, is replaced by the line-break tag: the result is \<^verbatim>\<open>a<br/>\nb\<close>, not the
  input.
\<close>

theorem renderedMd_blank_line_counterexample:
  "\<not> hash_prefixed_line (utf16 ''a\<newline>\<newline>b'') \<and>
   \<not> suffix [LF] (utf16 ''a\<newline>\<newline>b'') \<and>
   renderedMd (utf16 ''a\<newline>\<newline>b'') = utf16 ''a<br/>\<newline>b'' \<and>
   renderedMd (utf16 ''a\<newline>\<newline>b'') \<noteq> utf16 ''a\<newline>\<newline>b''"
  by code_simp

text \<open>
  C2, amended. The line-break substitution replaces exactly the newlines at a line end:
  every line feed that is the last code unit of its input or stands directly before a
  line terminator (a line feed, a carriage return, U+2028 or U+2029) becomes the tag,
  wherever it is in the string, and every other code unit is kept. For every text \<open>x\<close>
  that has no line starting with \<^verbatim>\<open>#\<close>, does not end in a newline and has no line feed
  directly before one of the four line terminators, the renderer returns \<open>x\<close> unchanged.
\<close>

theorem renderedMd_unchanged:
  "replace_newline_at_line_end s =
     concat (map (\<lambda>i. if newline_at_line_end s i then utf16 ''<br/>'' else [s ! i])
       [0..<length s])
   \<and> (\<not> hash_prefixed_line x \<and> \<not> suffix [LF] x \<and>
        \<not> sublist [LF, LF] x \<and> \<not> sublist [LF, CR] x \<and>
        \<not> sublist [LF, LS] x \<and> \<not> sublist [LF, PS] x
      \<longrightarrow> renderedMd x = x)"
proof (intro conjI impI)
  show "replace_newline_at_line_end s =
     concat (map (\<lambda>i. if newline_at_line_end s i then utf16 ''<br/>'' else [s ! i])
       [0..<length s])"
    by (rule replace_newline_positions)
next
  assume h: "\<not> hash_prefixed_line x \<and> \<not> suffix [LF] x \<and>
        \<not> sublist [LF, LF] x \<and> \<not> sublist [LF, CR] x \<and>
        \<not> sublist [LF, LS] x \<and> \<not> sublist [LF, PS] x"
  then have no_hash: "\<not> hash_prefixed_line x"
    by simp
  have h3: "replace_heading 3 tag_open tag_close x = x" for tag_open tag_close
    using replace_heading_unchanged [OF no_hash, of 2] by simp
  have h2: "replace_heading 2 tag_open tag_close x = x" for tag_open tag_close
    using replace_heading_unchanged [OF no_hash, of 1] by (simp add: numeral_2_eq_2)
  have h1: "replace_heading 1 tag_open tag_close x = x" for tag_open tag_close
    using replace_heading_unchanged [OF no_hash, of 0] by simp
  have "renderedMd x = replace_newline_at_line_end x"
    unfolding renderedMd_def by (simp only: h3 h2 h1)
  then show "renderedMd x = x"
    using h by (simp add: replace_newline_unchanged)
qed

theorem renderedMd_unchanged_witness:
  "\<not> hash_prefixed_line (utf16 ''a\<newline>b'') \<and> \<not> suffix [LF] (utf16 ''a\<newline>b'') \<and>
   \<not> sublist [LF, LF] (utf16 ''a\<newline>b'') \<and> \<not> sublist [LF, CR] (utf16 ''a\<newline>b'') \<and>
   \<not> sublist [LF, LS] (utf16 ''a\<newline>b'') \<and> \<not> sublist [LF, PS] (utf16 ''a\<newline>b'') \<and>
   renderedMd (utf16 ''a\<newline>b'') = utf16 ''a\<newline>b''"
proof -
  have h: "\<not> hash_prefixed_line (utf16 ''a\<newline>b'') \<and> \<not> suffix [LF] (utf16 ''a\<newline>b'') \<and>
      \<not> sublist [LF, LF] (utf16 ''a\<newline>b'') \<and> \<not> sublist [LF, CR] (utf16 ''a\<newline>b'') \<and>
      \<not> sublist [LF, LS] (utf16 ''a\<newline>b'') \<and> \<not> sublist [LF, PS] (utf16 ''a\<newline>b'')"
    by code_simp
  with renderedMd_unchanged [of _ "utf16 ''a\<newline>b''"] show ?thesis
    by blast
qed

text \<open>
  C3. The renderer applies the substitution for \<^verbatim>\<open>###\<close> first, then the one for \<^verbatim>\<open>##\<close>,
  then the one for \<^verbatim>\<open>#\<close>, then the line breaks. On \<^verbatim>\<open>### Sub\n## Mid\n# Top\<close> the first
  substitution wraps only the first line, and the result is a heading of level 3 with
  the text Sub, one of level 2 with Mid and one of level 1 with Top, each on its line;
  no \<^verbatim>\<open>#\<close> (U+0023) is left anywhere in the result.
\<close>

theorem renderedMd_three_headings:
  \<open>renderedMd md_value =
     replace_newline_at_line_end
       (replace_heading 1 (utf16 ''<h1 class="neon-title">'') (utf16 ''</h1>'')
         (replace_heading 2 (utf16 ''<h2 class="neon-subtitle">'') (utf16 ''</h2>'')
           (replace_heading 3 (utf16 ''<h3 class="neon-subtitle">'') (utf16 ''</h3>'')
             md_value)))
   \<and> replace_heading 3 (utf16 ''<h3 class="neon-subtitle">'') (utf16 ''</h3>'')
         (utf16 ''### Sub\<newline>## Mid\<newline># Top'') =
       utf16 ''<h3 class="neon-subtitle">Sub</h3>\<newline>## Mid\<newline># Top''
   \<and> renderedMd (utf16 ''### Sub\<newline>## Mid\<newline># Top'') =
       utf16 ''<h3 class="neon-subtitle">Sub</h3>\<newline><h2 class="neon-subtitle">Mid</h2>\<newline><h1 class="neon-title">Top</h1>''
   \<and> 0x0023 \<notin> set (renderedMd (utf16 ''### Sub\<newline>## Mid\<newline># Top''))\<close>
proof (intro conjI)
  show \<open>renderedMd md_value =
     replace_newline_at_line_end
       (replace_heading 1 (utf16 ''<h1 class="neon-title">'') (utf16 ''</h1>'')
         (replace_heading 2 (utf16 ''<h2 class="neon-subtitle">'') (utf16 ''</h2>'')
           (replace_heading 3 (utf16 ''<h3 class="neon-subtitle">'') (utf16 ''</h3>'')
             md_value)))\<close>
    by (simp only: renderedMd_def)
  show \<open>replace_heading 3 (utf16 ''<h3 class="neon-subtitle">'') (utf16 ''</h3>'')
         (utf16 ''### Sub\<newline>## Mid\<newline># Top'') =
       utf16 ''<h3 class="neon-subtitle">Sub</h3>\<newline>## Mid\<newline># Top''\<close>
    by code_simp
  show \<open>renderedMd (utf16 ''### Sub\<newline>## Mid\<newline># Top'') =
       utf16 ''<h3 class="neon-subtitle">Sub</h3>\<newline><h2 class="neon-subtitle">Mid</h2>\<newline><h1 class="neon-title">Top</h1>''\<close>
    by code_simp
  show \<open>0x0023 \<notin> set (renderedMd (utf16 ''### Sub\<newline>## Mid\<newline># Top''))\<close>
    by code_simp
qed

section \<open>The JSON editor\<close>

text \<open>
  The text \<^verbatim>\<open>null\<close> parses without an exception, to the value that \<^verbatim>\<open>parsed\<close> also uses
  for a failure: the page shows it as invalid, with an empty message.
\<close>

lemma isValid_null:
  "JSON_parse val = Inr JNull \<Longrightarrow>
     isValid JSON_parse val = Inr False \<and>
     raw_watcher JSON_parse val page = Inr (page\<lparr>errorMsg := []\<rparr>)"
  by (simp add: parsed_def isValid_def raw_watcher_def try_catch_def)

text \<open>
  C7. Whatever \<^verbatim>\<open>JSON.parse\<close> does on the text, the three computations of the page that
  call it or read its result return a value and throw nothing. When \<^verbatim>\<open>JSON.parse\<close> throws,
  the validity flag is false and the watcher sets the message to the fixed text.
\<close>

theorem parse_failure_caught:
  "(\<exists>v. parsed JSON_parse val = Inr v) \<and>
   (\<exists>b. isValid JSON_parse val = Inr b) \<and>
   (\<exists>page'. raw_watcher JSON_parse val page = Inr page') \<and>
   (\<forall>e. JSON_parse val = Inl e \<longrightarrow>
      isValid JSON_parse val = Inr False \<and>
      raw_watcher JSON_parse val page = Inr (page\<lparr>errorMsg := invalid_message\<rparr>))"
  by (cases "JSON_parse val")
     (auto simp add: parsed_def isValid_def raw_watcher_def try_catch_def)

theorem parse_failure_caught_witness:
  "JSON_parse_sample ''{'' = Inl ''SyntaxError'' \<and>
   isValid JSON_parse_sample ''{'' = Inr False \<and>
   raw_watcher JSON_parse_sample ''{'' \<lparr>raw = ''{'', errorMsg = []\<rparr> =
     Inr \<lparr>raw = ''{'', errorMsg = invalid_message\<rparr>"
proof -
  have h: "JSON_parse_sample ''{'' = Inl ''SyntaxError''"
    by (simp add: JSON_parse_sample_def)
  with parse_failure_caught [of JSON_parse_sample "''{''" "\<lparr>raw = ''{'', errorMsg = []\<rparr>"]
  show ?thesis by simp
qed

section \<open>The diagram\<close>

text \<open>
  C8, as the claim states it, fails. With a collaborator whose \<^verbatim>\<open>render\<close> throws and the
  diagram element mounted, the hook returns normally and the element is as it was,
  empty: the source text of the diagram is not displayed.
\<close>

theorem onMounted_throwing_counterexample:
  "onMounted (Some throwing_mermaid) mounted_page =
     Inr \<lparr>umlEl = Some (InnerHTML []), ganttEl = Some (InnerHTML gantt_placeholder)\<rparr> \<and>
   Some (InnerHTML []) \<noteq> Some (InnerText uml_code)"
  by (simp add: onMounted_def render_uml_def try_catch_def throwing_mermaid_def
      mounted_page_def)

text \<open>
  C8, amended. The hook never throws, whatever the collaborator does. When the
  collaborator is absent and the diagram element is mounted, the element shows the
  source text of the diagram verbatim. When a call of the collaborator throws, the
  exception is dropped and the diagram element is left as it was.
\<close>

theorem onMounted_never_throws:
  "\<exists>page'. onMounted window_mermaid page = Inr page' \<and>
     (window_mermaid = None \<and> umlEl page \<noteq> None \<longrightarrow>
        umlEl page' = Some (InnerText uml_code)) \<and>
     ((\<exists>mermaid e. window_mermaid = Some mermaid \<and>
         (initialize mermaid uml_config = Inl e \<or>
          render mermaid ''uml-svg'' uml_code = Inl e)) \<longrightarrow>
        umlEl page' = umlEl page)"
  by (auto simp: onMounted_def render_uml_def try_catch_def split: option.splits sum.splits)

theorem onMounted_never_throws_witness:
  "(\<exists>page'. onMounted (None :: string mermaid option) mounted_page = Inr page' \<and>
      umlEl page' = Some (InnerText uml_code)) \<and>
   (\<exists>page'. onMounted (Some throwing_mermaid) mounted_page = Inr page' \<and>
      umlEl page' = umlEl mounted_page)"
proof
  have "umlEl mounted_page \<noteq> None"
    by (simp add: mounted_page_def)
  with onMounted_never_throws [of "None :: string mermaid option" mounted_page]
  show "\<exists>page'. onMounted (None :: string mermaid option) mounted_page = Inr page' \<and>
      umlEl page' = Some (InnerText uml_code)"
    by blast
next
  have "render throwing_mermaid ''uml-svg'' uml_code = Inl ''Parse error on line 1''"
    by (simp add: throwing_mermaid_def)
  with onMounted_never_throws [of "Some throwing_mermaid" mounted_page]
  show "\<exists>page'. onMounted (Some throwing_mermaid) mounted_page = Inr page' \<and>
      umlEl page' = umlEl mounted_page"
    by blast
qed

end
